theory Spec2Isabelle
  imports Complex_Main
begin

section \<open>Python values used by pad.py and picdate.py\<close>

type_synonym path = string

text \<open>
  Exceptions are values. Every constructor is a subclass of Python's \<open>Exception\<close>;
  \<open>KeyboardInterrupt\<close>, which derives from \<open>BaseException\<close> and arrives
  asynchronously, is not a value of this type.
\<close>

datatype exc =
    ValueError
  | ZeroDivisionError
  | KeyError
  | AttributeError
  | TypeError
  | OSError
  | FileNotFoundError
  | UnidentifiedImageError

text \<open>Sequencing of steps that may raise: the first exception ends the sequence.\<close>

definition bind_exc :: "exc + 'a \<Rightarrow> ('a \<Rightarrow> exc + 'b) \<Rightarrow> exc + 'b" where
  "bind_exc m f = (case m of Inl e \<Rightarrow> Inl e | Inr x \<Rightarrow> f x)"

subsection \<open>\<open>str.replace\<close>, \<open>str.split\<close>, \<open>str.lower\<close>\<close>

text \<open>
  \<open>insert_between new n s\<close> is \<open>s.replace("", new, n)\<close>: Python puts \<open>new\<close> in
  front of each of the first characters and, when replacements are left, at the end.
\<close>

fun insert_between :: "string \<Rightarrow> nat \<Rightarrow> string \<Rightarrow> string" where
  "insert_between new 0 s = s"
| "insert_between new (Suc n) [] = new"
| "insert_between new (Suc n) (c # cs) = new @ c # insert_between new n cs"

text \<open>
  \<open>replace_count old new n s\<close> is \<open>s.replace(old, new, n)\<close>: the first \<open>n\<close>
  non-overlapping occurrences of \<open>old\<close>, found from the left, become \<open>new\<close>.
\<close>

function replace_count :: "string \<Rightarrow> string \<Rightarrow> nat \<Rightarrow> string \<Rightarrow> string" where
  "replace_count old new n s =
     (if old = [] then insert_between new n s
      else if n = 0 \<or> s = [] then s
      else if take (length old) s = old
        then new @ replace_count old new (n - 1) (drop (length old) s)
        else hd s # replace_count old new n (tl s))"
  by pat_completeness auto
termination
  by (relation "measure (\<lambda>(old, new, n, s). length s)") (auto simp: Suc_le_eq)

declare replace_count.simps [simp del]

text \<open>
  \<open>str_replace old new s\<close> is \<open>s.replace(old, new)\<close>, every occurrence. A string of
  length \<open>k\<close> has at most \<open>k + 1\<close> places to replace.
\<close>

definition str_replace :: "string \<Rightarrow> string \<Rightarrow> string \<Rightarrow> string" where
  "str_replace old new s = replace_count old new (Suc (length s)) s"

text \<open>\<open>split_char sep s\<close> is \<open>s.split(sep)\<close> for a one-character separator.\<close>

fun split_char :: "char \<Rightarrow> string \<Rightarrow> string list" where
  "split_char sep [] = [[]]"
| "split_char sep (c # cs) =
     (if c = sep then [] # split_char sep cs
      else (case split_char sep cs of
              [] \<Rightarrow> [[c]]
            | x # xs \<Rightarrow> (c # x) # xs))"

text \<open>\<open>str.lower\<close> on ASCII letters.\<close>

definition lower_char :: "char \<Rightarrow> char" where
  "lower_char c =
     (let n = (of_char c :: nat)
      in if 65 \<le> n \<and> n \<le> 90 then char_of (n + 32) else c)"

definition lower :: "string \<Rightarrow> string" where
  "lower s = map lower_char s"

subsection \<open>\<open>int(s)\<close> on decimal digits\<close>

definition is_digit :: "char \<Rightarrow> bool" where
  "is_digit c = (48 \<le> (of_char c :: nat) \<and> (of_char c :: nat) \<le> 57)"

definition digit_val :: "char \<Rightarrow> nat" where
  "digit_val c = of_char c - 48"

text \<open>
  \<open>int(s)\<close> for a string of decimal digits; every other string is a
  \<open>ValueError\<close> here (the signs, blanks and underscores that Python's \<open>int\<close>
  tolerates do not occur in the layouts below).
\<close>

definition py_int :: "string \<Rightarrow> exc + nat" where
  "py_int s =
     (if s \<noteq> [] \<and> list_all is_digit s
      then Inr (foldl (\<lambda>a c. 10 * a + digit_val c) 0 s)
      else Inl ValueError)"

subsection \<open>\<open>datetime.datetime\<close>\<close>

record datetime =
  year :: nat
  month :: nat
  day :: nat
  hour :: nat
  minute :: nat
  second :: nat
  microsecond :: nat

definition is_leap :: "nat \<Rightarrow> bool" where
  "is_leap y = (y mod 4 = 0 \<and> (y mod 100 \<noteq> 0 \<or> y mod 400 = 0))"

definition days_in_month :: "nat \<Rightarrow> nat \<Rightarrow> nat" where
  "days_in_month y m =
     (if m = 2 then (if is_leap y then 29 else 28)
      else if m \<in> {4, 6, 9, 11} then 30 else 31)"

text \<open>The range checks of the \<open>datetime\<close> constructor.\<close>

definition valid_datetime :: "datetime \<Rightarrow> bool" where
  "valid_datetime d =
     (1 \<le> year d \<and> year d \<le> 9999 \<and> 1 \<le> month d \<and> month d \<le> 12 \<and>
      1 \<le> day d \<and> day d \<le> days_in_month (year d) (month d) \<and>
      hour d \<le> 23 \<and> minute d \<le> 59 \<and> second d \<le> 59 \<and> microsecond d \<le> 999999)"

definition datetime_new :: "nat \<Rightarrow> nat \<Rightarrow> nat \<Rightarrow> nat \<Rightarrow> nat \<Rightarrow> nat \<Rightarrow> nat \<Rightarrow> exc + datetime" where
  "datetime_new y mo d h mi s us =
     (let dt = \<lparr>year = y, month = mo, day = d, hour = h, minute = mi, second = s,
                microsecond = us\<rparr>
      in if valid_datetime dt then Inr dt else Inl ValueError)"

text \<open>
  \<open>datetime.fromisoformat\<close>, following the standard library's parser for
  \<open>YYYY-MM-DD[*HH[:MM[:SS[.fff[fff]]]]]\<close>: ten characters of date, one separator
  character of any kind, then the time. A time-zone suffix is not part of this
  model and is rejected.
\<close>

definition parse_isoformat_date :: "string \<Rightarrow> exc + nat \<times> nat \<times> nat" where
  "parse_isoformat_date dtstr =
     bind_exc (py_int (take 4 dtstr)) (\<lambda>y.
     if take 1 (drop 4 dtstr) \<noteq> ''-'' then Inl ValueError else
     bind_exc (py_int (take 2 (drop 5 dtstr))) (\<lambda>mo.
     if take 1 (drop 7 dtstr) \<noteq> ''-'' then Inl ValueError else
     bind_exc (py_int (take 2 (drop 8 dtstr))) (\<lambda>d.
     Inr (y, mo, d))))"

definition parse_hh_mm_ss_ff :: "string \<Rightarrow> exc + nat \<times> nat \<times> nat \<times> nat" where
  "parse_hh_mm_ss_ff tstr =
     (if length tstr < 2 then Inl ValueError else
      bind_exc (py_int (take 2 tstr)) (\<lambda>h.
      let r1 = drop 2 tstr in
      if r1 = [] then Inr (h, 0, 0, 0) else
      if take 1 r1 \<noteq> '':'' then Inl ValueError else
      if length r1 < 3 then Inl ValueError else
      bind_exc (py_int (take 2 (drop 1 r1))) (\<lambda>mi.
      let r2 = drop 3 r1 in
      if r2 = [] then Inr (h, mi, 0, 0) else
      if take 1 r2 \<noteq> '':'' then Inl ValueError else
      if length r2 < 3 then Inl ValueError else
      bind_exc (py_int (take 2 (drop 1 r2))) (\<lambda>s.
      let r3 = drop 3 r2 in
      if r3 = [] then Inr (h, mi, s, 0) else
      if take 1 r3 \<noteq> ''.'' then Inl ValueError else
      let frac = drop 1 r3 in
      if length frac \<noteq> 3 \<and> length frac \<noteq> 6 then Inl ValueError else
      bind_exc (py_int frac) (\<lambda>us.
      Inr (h, mi, s, if length frac = 3 then us * 1000 else us))))))"

definition parse_isoformat_time :: "string \<Rightarrow> exc + nat \<times> nat \<times> nat \<times> nat" where
  "parse_isoformat_time tstr =
     (if CHR ''-'' \<in> set tstr \<or> CHR ''+'' \<in> set tstr then Inl ValueError
      else parse_hh_mm_ss_ff tstr)"

definition fromisoformat :: "string \<Rightarrow> exc + datetime" where
  "fromisoformat date_string =
     (let dstr = take 10 date_string; tstr = drop 11 date_string in
      bind_exc (parse_isoformat_date dstr) (\<lambda>(y, mo, d).
      bind_exc (if tstr \<noteq> [] then parse_isoformat_time tstr else Inr (0, 0, 0, 0))
        (\<lambda>(h, mi, s, us). datetime_new y mo d h mi s us)))"

subsection \<open>The EXIF layout of a date\<close>

text \<open>
  The text \<open>YYYY:MM:DD hh:mm:ss\<close> of an instant, as tag 36867 (DateTimeOriginal)
  stores it: zero-padded decimal fields.
\<close>

definition digit_char :: "nat \<Rightarrow> char" where
  "digit_char k = char_of (48 + k)"

definition zero_pad2 :: "nat \<Rightarrow> string" where
  "zero_pad2 n = [digit_char (n div 10 mod 10), digit_char (n mod 10)]"

definition zero_pad4 :: "nat \<Rightarrow> string" where
  "zero_pad4 n =
     [digit_char (n div 1000 mod 10), digit_char (n div 100 mod 10),
      digit_char (n div 10 mod 10), digit_char (n mod 10)]"

definition exif_layout :: "datetime \<Rightarrow> string" where
  "exif_layout d =
     zero_pad4 (year d) @ '':'' @ zero_pad2 (month d) @ '':'' @ zero_pad2 (day d) @ '' '' @
     zero_pad2 (hour d) @ '':'' @ zero_pad2 (minute d) @ '':'' @ zero_pad2 (second d)"

subsection \<open>\<open>float(Fraction(s))\<close>\<close>

text \<open>
  Python floats are modelled as exact reals. \<open>py_div\<close> is the true division
  \<open>x / y\<close>, which raises on a zero divisor.
\<close>

definition py_div :: "real \<Rightarrow> real \<Rightarrow> exc + real" where
  "py_div x y = (if y = 0 then Inl ZeroDivisionError else Inr (x / y))"

text \<open>
  \<open>float(Fraction(s))\<close> on the forms \<open>M\<close> and \<open>M/N\<close> of decimal digits, the
  input language the command line documents for \<open>--fine_tune_aspect_ratio\<close>.
  A zero denominator raises \<open>ZeroDivisionError\<close>, as \<open>Fraction\<close> does.
\<close>

definition Fraction_float :: "string \<Rightarrow> exc + real" where
  "Fraction_float s =
     (let num = takeWhile (\<lambda>c. c \<noteq> CHR ''/'') s;
          rest = dropWhile (\<lambda>c. c \<noteq> CHR ''/'') s in
      bind_exc (py_int num) (\<lambda>m.
      if rest = [] then Inr (real m) else
      bind_exc (py_int (tl rest)) (\<lambda>n.
      if n = 0 then Inl ZeroDivisionError else Inr (real m / real n))))"

section \<open>The world outside the program\<close>

record font =
  font_file :: path
  font_px :: int

text \<open>The arguments of one \<open>draw.text\<close> call.\<close>

record draw_args =
  xy :: "real \<times> real"
  label :: string
  anchor :: string
  fnt :: font
  fill :: "int list"
  d_stroke_width :: int
  stroke_fill :: "int list"

text \<open>
  An opened image: \<open>img.size\<close>, the tags \<open>img._getexif()\<close> reads, the stored
  orientation (EXIF tag 274, 1 for upright), the raw block \<open>img.info["exif"]\<close> and
  the text drawn on it so far.
\<close>

record image =
  img_size :: "int \<times> int"
  exif_tags :: "(nat \<rightharpoonup> string) option"
  orientation :: nat
  info_exif :: "string option"
  drawn :: "draw_args list"

datatype node = Dir | File real "image option"

text \<open>
  What the program prints: a formatted line, the dump of the parsed arguments, or
  the report of the \<open>except\<close> clause (\<open>print(e, locals())\<close> and the traceback).
\<close>

datatype printed = Line string | ArgsReport | ErrorReport exc

record world =
  nodes :: "path \<rightharpoonup> node"
  stdout :: "printed list"

definition py_print :: "printed \<Rightarrow> world \<Rightarrow> world" where
  "py_print x w = w\<lparr>stdout := stdout w @ [x]\<rparr>"

definition quoted :: "string \<Rightarrow> string" where
  "quoted s = [CHR 0x27] @ s @ [CHR 0x27]"

definition exists :: "world \<Rightarrow> path \<Rightarrow> bool" where
  "exists w p = (nodes w p \<noteq> None)"


text \<open>The image a file holds, if any.\<close>

definition stored_image :: "world \<Rightarrow> path \<Rightarrow> image option" where
  "stored_image w p = (case nodes w p of Some (File t c) \<Rightarrow> c | _ \<Rightarrow> None)"

text \<open>
  A step that may print, change the file system and raise returns the world it
  leaves behind together with its value or its exception.
\<close>

definition bind_io ::
  "world \<times> (exc + 'a) \<Rightarrow> (world \<Rightarrow> 'a \<Rightarrow> world \<times> (exc + 'b)) \<Rightarrow> world \<times> (exc + 'b)" where
  "bind_io m f = (case m of (w, Inl e) \<Rightarrow> (w, Inl e) | (w, Inr x) \<Rightarrow> f w x)"

text \<open>
  The imaging library, the operating system and the locale-dependent parts of
  \<open>datetime\<close> and \<open>pathlib\<close> are parameters: each call may succeed or raise.
\<close>

record env =
  Image_open :: "world \<Rightarrow> path \<Rightarrow> exc + image"
  getexif :: "image \<Rightarrow> exc + (nat \<rightharpoonup> string) option"
  st_mtime :: "world \<Rightarrow> path \<Rightarrow> exc + real"
  fromtimestamp :: "real \<Rightarrow> exc + datetime"
  exif_transpose :: "image \<Rightarrow> exc + image"
  strftime :: "datetime \<Rightarrow> string \<Rightarrow> exc + string"
  truetype :: "world \<Rightarrow> path \<Rightarrow> int \<Rightarrow> exc + font"
  draw_text :: "image \<Rightarrow> draw_args \<Rightarrow> exc + image"
  absolute :: "path \<Rightarrow> path"
  parent :: "path \<Rightarrow> path"
  mkdir :: "world \<Rightarrow> path \<Rightarrow> world \<times> (exc + unit)"
  save :: "world \<Rightarrow> image \<Rightarrow> path \<Rightarrow> int \<Rightarrow> string option \<Rightarrow> world \<times> (exc + unit)"
  glob :: "world \<Rightarrow> path \<Rightarrow> path list"
  rglob :: "world \<Rightarrow> path \<Rightarrow> path list"
  expanduser :: "path \<Rightarrow> path"
  urlretrieve :: "world \<Rightarrow> string \<Rightarrow> path \<Rightarrow> world \<times> (exc + unit)"

text \<open>The \<open>config\<close> dictionary, with the keys of both programs.\<close>

record config =
  text_size :: real
  text_color :: "int list"
  text_anchor :: string
  pos_y :: real
  pos_x :: real
  pos_h :: real
  pos_w :: real
  fine_tune_aspect_ratio :: string
  stroke_width :: int
  stroke_color :: "int list"
  quality :: int
  format :: string
  font_path :: path
  img_exts :: string

section \<open>The single-image worker\<close>

subsection \<open>Date resolution\<close>

text \<open>
  The branch taken when \<open>exif is None or 36867 not in exif.keys()\<close>: a line is
  printed and the date is \<open>fromtimestamp(Path(inpath).stat().st_mtime)\<close>.
\<close>

definition mtime_date :: "env \<Rightarrow> world \<Rightarrow> path \<Rightarrow> world \<times> (exc + datetime)" where
  "mtime_date E w inpath =
     (let w1 = py_print
            (Line (quoted inpath @ '' does not have exif info, use modified date instead'')) w
      in (w1, bind_exc (st_mtime E w1 inpath) (fromtimestamp E)))"

text \<open>
  The other branch: \<open>fromisoformat(date.replace(":", "-", 2) + ".000")\<close> on the
  value of tag 36867.
\<close>

definition exif_date :: "string \<Rightarrow> exc + datetime" where
  "exif_date date = fromisoformat (replace_count '':'' ''-'' 2 date @ ''.000'')"

text \<open>pad.py, lines 17 to 28: the image is left as it was opened.\<close>

definition pad_get_date ::
  "env \<Rightarrow> world \<Rightarrow> path \<Rightarrow> (nat \<rightharpoonup> string) option \<Rightarrow> world \<times> (exc + datetime)" where
  "pad_get_date E w inpath exif =
     (case exif of
        None \<Rightarrow> mtime_date E w inpath
      | Some tags \<Rightarrow>
          (case tags 36867 of
             None \<Rightarrow> mtime_date E w inpath
           | Some date \<Rightarrow> (w, exif_date date)))"

text \<open>
  picdate.py, lines 20 to 33: in the branch that reads tag 36867 the image is
  replaced by \<open>ImageOps.exif_transpose(img)\<close>.
\<close>

definition picdate_get_date ::
  "env \<Rightarrow> world \<Rightarrow> path \<Rightarrow> image \<Rightarrow> (nat \<rightharpoonup> string) option
     \<Rightarrow> world \<times> (exc + datetime \<times> image)" where
  "picdate_get_date E w inpath img exif =
     (case exif of
        None \<Rightarrow> bind_io (mtime_date E w inpath) (\<lambda>w1 d. (w1, Inr (d, img)))
      | Some tags \<Rightarrow>
          (case tags 36867 of
             None \<Rightarrow> bind_io (mtime_date E w inpath) (\<lambda>w1 d. (w1, Inr (d, img)))
           | Some date \<Rightarrow>
               (w, bind_exc (exif_date date) (\<lambda>d.
                   bind_exc (exif_transpose E img) (\<lambda>img1. Inr (d, img1))))))"

subsection \<open>Geometry\<close>

text \<open>
  picdate.py, lines 39 to 53: the offsets \<open>(offset_w, offset_h)\<close> for a crop to
  the configured aspect ratio.
\<close>

definition fine_tune :: "string \<Rightarrow> int \<Rightarrow> int \<Rightarrow> exc + real \<times> real" where
  "fine_tune ratio width height =
     (if ratio \<noteq> ''none'' then
        bind_exc (Fraction_float ratio) (\<lambda>aspect_ratio.
        if width > height then
          bind_exc (py_div (real_of_int width) (real_of_int height)) (\<lambda>wh.
          bind_exc (py_div 1 aspect_ratio) (\<lambda>inv.
          if wh > inv + 0.01
            then Inr ((real_of_int width - inv * real_of_int height) / 2, 0)
          else if wh < inv - 0.01
            then Inr (0, (real_of_int height - aspect_ratio * real_of_int width) / 2)
          else Inr (0, 0)))
        else
          bind_exc (py_div (real_of_int width) (real_of_int height)) (\<lambda>wh.
          if wh > aspect_ratio + 0.01
            then Inr ((real_of_int width - aspect_ratio * real_of_int height) / 2, 0)
          else if wh < aspect_ratio - 0.01
            then bind_exc (py_div 1 aspect_ratio) (\<lambda>inv.
                   Inr (0, (real_of_int height - inv * real_of_int width) / 2))
          else Inr (0, 0)))
      else Inr (0, 0))"

text \<open>
  picdate.py, lines 59 to 62: \<open>int(float(text_size) * max(width, height) // 152)\<close>.
\<close>

definition picdate_font_size :: "real \<Rightarrow> int \<Rightarrow> int \<Rightarrow> int" where
  "picdate_font_size tsize width height =
     \<lfloor>tsize * real_of_int (max width height) / 152\<rfloor>"

text \<open>pad.py, line 34: \<open>(width if width > height else height) // 36\<close>.\<close>

definition pad_font_size :: "int \<Rightarrow> int \<Rightarrow> int" where
  "pad_font_size width height = (if width > height then width else height) div 36"

text \<open>picdate.py, lines 69 to 72: where the text is drawn.\<close>

definition draw_xy :: "config \<Rightarrow> int \<Rightarrow> int \<Rightarrow> real \<times> real \<Rightarrow> real \<times> real" where
  "draw_xy config width height offs =
     ((real_of_int width - fst offs) * pos_x config,
      (real_of_int height - snd offs) * pos_y config)"


subsection \<open>Saving\<close>

text \<open>
  Lines 81 to 94 of picdate.py (51 to 64 of pad.py): the parent directory is
  created when missing, and the EXIF block is written back when \<open>exif\<close> is not
  \<open>None\<close>.
\<close>

definition save_img ::
  "env \<Rightarrow> world \<Rightarrow> image \<Rightarrow> (nat \<rightharpoonup> string) option \<Rightarrow> path \<Rightarrow> config
     \<Rightarrow> world \<times> (exc + unit)" where
  "save_img E w img exif outpath config =
     bind_io (if \<not> exists w (parent E (absolute E outpath))
              then mkdir E w (parent E (absolute E outpath))
              else (w, Inr ())) (\<lambda>w1 u.
       case exif of
         None \<Rightarrow> save E w1 img outpath (quality config) None
       | Some tags \<Rightarrow>
           (case info_exif img of
              None \<Rightarrow> (w1, Inl KeyError)
            | Some raw \<Rightarrow> save E w1 img outpath (quality config) (Some raw)))"

subsection \<open>The body of the \<open>try\<close> block\<close>

text \<open>
  pad.py, lines 30 to 64: formatting, font, drawing and saving, with the width and
  height that line 14 read from the opened image.
\<close>

definition pad_render ::
  "env \<Rightarrow> world \<Rightarrow> path \<Rightarrow> config \<Rightarrow> (nat \<rightharpoonup> string) option \<Rightarrow> datetime
     \<Rightarrow> int \<times> int \<Rightarrow> image \<Rightarrow> world \<times> (exc + unit)" where
  "pad_render E w outpath config exif date dims img =
     (let width = fst dims; height = snd dims in
      bind_io (w, strftime E date (format config)) (\<lambda>w text.
      bind_io (w, truetype E w (font_path config) (pad_font_size width height)) (\<lambda>w f.
      bind_io (w, draw_text E img
          \<lparr>xy = (real_of_int width * pos_w config, real_of_int height * pos_h config),
           label = text, anchor = text_anchor config, fnt = f,
           fill = text_color config, d_stroke_width = stroke_width config,
           stroke_fill = stroke_color config\<rparr>) (\<lambda>w img1.
      save_img E w img1 exif outpath config))))"

definition pad_pipeline ::
  "env \<Rightarrow> world \<Rightarrow> path \<Rightarrow> path \<Rightarrow> config \<Rightarrow> world \<times> (exc + unit)" where
  "pad_pipeline E w inpath outpath config =
     bind_io (w, Image_open E w inpath) (\<lambda>w img.
     let dims = img_size img in
     bind_io (w, getexif E img) (\<lambda>w exif.
     bind_io (pad_get_date E w inpath exif) (\<lambda>w date.
     pad_render E w outpath config exif date dims img)))"

text \<open>
  picdate.py, lines 35 to 94: the width and height are read (line 39) from the
  image that date resolution hands over.
\<close>

definition picdate_render ::
  "env \<Rightarrow> world \<Rightarrow> path \<Rightarrow> path \<Rightarrow> config \<Rightarrow> (nat \<rightharpoonup> string) option \<Rightarrow> datetime
     \<Rightarrow> image \<Rightarrow> world \<times> (exc + unit)" where
  "picdate_render E w inpath outpath config exif date img =
     bind_io (w, strftime E date (format config)) (\<lambda>w text.
     let width = fst (img_size img); height = snd (img_size img) in
     bind_io (w, fine_tune (fine_tune_aspect_ratio config) width height) (\<lambda>w offs.
     let w = (if fine_tune_aspect_ratio config \<noteq> ''none'' \<and> (snd offs > 0 \<or> fst offs > 0)
              then py_print (Line (quoted inpath @ '' fine tune for cropping into aspect ratio'')) w
              else w) in
     bind_io (w, truetype E w (font_path config)
                   (picdate_font_size (text_size config) width height)) (\<lambda>w f.
     bind_io (w, draw_text E img
         \<lparr>xy = draw_xy config width height offs,
          label = text, anchor = text_anchor config, fnt = f,
          fill = text_color config, d_stroke_width = stroke_width config,
          stroke_fill = stroke_color config\<rparr>) (\<lambda>w img1.
     save_img E w img1 exif outpath config))))"

definition picdate_pipeline ::
  "env \<Rightarrow> world \<Rightarrow> path \<Rightarrow> path \<Rightarrow> config \<Rightarrow> world \<times> (exc + unit)" where
  "picdate_pipeline E w inpath outpath config =
     bind_io (w, Image_open E w inpath) (\<lambda>w img0.
     bind_io (w, getexif E img0) (\<lambda>w exif.
     bind_io (picdate_get_date E w inpath img0 exif) (\<lambda>w r.
     picdate_render E w inpath outpath config exif (fst r) (snd r))))"

subsection \<open>\<open>add_date_to_img\<close>\<close>

text \<open>
  \<open>try: ... except Exception as e:\<close> prints the exception, the local variables and the
  traceback and lets the function end normally. The second component of the result
  is \<open>Inr ()\<close> when the function returns and \<open>Inl e\<close> when \<open>e\<close> leaves it.
\<close>

definition except_Exception :: "world \<times> (exc + unit) \<Rightarrow> world \<times> (exc + unit)" where
  "except_Exception r =
     (case r of
        (w, Inl e) \<Rightarrow> (py_print (ErrorReport e) w, Inr ())
      | (w, Inr u) \<Rightarrow> (w, Inr ()))"

definition pad_add_date_to_img ::
  "env \<Rightarrow> world \<Rightarrow> path \<Rightarrow> path \<Rightarrow> config \<Rightarrow> world \<times> (exc + unit)" where
  "pad_add_date_to_img E w inpath outpath config =
     except_Exception (pad_pipeline E w inpath outpath config)"


section \<open>The batch scheduler\<close>

text \<open>\<open>PurePath.name\<close> and \<open>PurePath.suffix\<close> on a POSIX path string.\<close>

definition path_name :: "path \<Rightarrow> string" where
  "path_name p = rev (takeWhile (\<lambda>c. c \<noteq> CHR ''/'') (rev p))"

definition suffix :: "path \<Rightarrow> string" where
  "suffix p =
     (let name = path_name p;
          ext = rev (takeWhile (\<lambda>c. c \<noteq> CHR ''.'') (rev name))
      in if CHR ''.'' \<in> set name \<and> ext \<noteq> [] \<and> length ext + 1 < length name
         then CHR ''.'' # ext else [])"

text \<open>\<open>["." + str(i).lower() for i in config["img_exts"].split(",")]\<close>\<close>

definition allowed_exts :: "config \<Rightarrow> string list" where
  "allowed_exts config = map (\<lambda>i. CHR ''.'' # lower i) (split_char (CHR '','') (img_exts config))"

text \<open>
  The destination of a candidate:
  \<open>str(in_path).replace(str(Path(in_dir).absolute()), str(Path(out_dir).absolute()))\<close>.
\<close>

definition out_path_of :: "env \<Rightarrow> path \<Rightarrow> path \<Rightarrow> path \<Rightarrow> path" where
  "out_path_of E in_dir out_dir in_path =
     str_replace (absolute E in_dir) (absolute E out_dir) in_path"

type_synonym task = "path \<times> path"

text \<open>
  One round of the loop \<open>for file in files\<close>: the candidate is skipped, with or
  without a printed line, or appended to \<open>tasks\<close>.
\<close>

definition submit_one ::
  "env \<Rightarrow> path \<Rightarrow> path \<Rightarrow> bool \<Rightarrow> config \<Rightarrow> world \<times> task list \<Rightarrow> path \<Rightarrow> world \<times> task list" where
  "submit_one E in_dir out_dir overwrite config st file =
     (let w = fst st; tasks = snd st in
      if lower (suffix file) \<notin> set (allowed_exts config) then (w, tasks)
      else
        let in_path = absolute E file;
            out_path = out_path_of E in_dir out_dir in_path
        in if \<not> overwrite \<and> exists w out_path
           then (py_print (Line (quoted out_path @ '' exists and overwrite is set to False.'')) w,
                 tasks)
           else if in_path = out_path
           then (py_print (Line (''Out '' @ quoted out_path @ '' equals to In '' @ quoted in_path
                                 @ ''. Please specify other path'')) w,
                 tasks)
           else (w, tasks @ [(in_path, out_path)]))"

text \<open>The whole loop: the tasks handed to \<open>pool.apply_async\<close>, in submission order.\<close>

definition submit_tasks ::
  "env \<Rightarrow> world \<Rightarrow> path \<Rightarrow> path \<Rightarrow> bool \<Rightarrow> config \<Rightarrow> path list \<Rightarrow> world \<times> task list" where
  "submit_tasks E w in_dir out_dir overwrite config files =
     foldl (submit_one E in_dir out_dir overwrite config) (w, []) files"



section \<open>The command line of picdate.py\<close>

record args =
  src :: string
  dst :: string
  force :: bool
  recursive :: bool
  jobs :: nat
  arg_text_size :: real
  arg_text_color :: "int list"
  arg_text_anchor :: string
  arg_pos_x :: real
  arg_pos_y :: real
  arg_fine_tune_aspect_ratio :: string
  arg_stroke_width :: int
  arg_stroke_color :: "int list"
  arg_quality :: int
  arg_format :: string
  arg_img_exts :: string

text \<open>
  The dictionary \<open>cli\<close> builds. The keys \<open>pos_w\<close> and \<open>pos_h\<close> are pad.py's names
  for \<open>pos_x\<close> and \<open>pos_y\<close>; picdate.py never reads them.
\<close>

definition picdate_config :: "env \<Rightarrow> args \<Rightarrow> config" where
  "picdate_config E a =
     \<lparr>text_size = arg_text_size a, text_color = arg_text_color a,
      text_anchor = arg_text_anchor a, pos_y = arg_pos_y a, pos_x = arg_pos_x a,
      pos_h = arg_pos_y a, pos_w = arg_pos_x a,
      fine_tune_aspect_ratio = arg_fine_tune_aspect_ratio a,
      stroke_width = arg_stroke_width a, stroke_color = arg_stroke_color a,
      quality = arg_quality a, format = arg_format a,
      font_path = expanduser E ''~/.cache/picdate/CursedTimerUlil-Aznm.ttf'',
      img_exts = arg_img_exts a\<rparr>"


text \<open>
  The defaults of \<open>get_args\<close> in picdate.py, for a given \<open>--src\<close>; \<open>cpus\<close> is
  \<open>multiprocessing.cpu_count()\<close>.
\<close>

definition default_args :: "string \<Rightarrow> nat \<Rightarrow> args" where
  "default_args s cpus =
     \<lparr>src = s, dst = ''./picdate_result/'', force = False, recursive = False, jobs = cpus,
      arg_text_size = 4.24, arg_text_color = [255, 149, 21], arg_text_anchor = ''rb'',
      arg_pos_x = 0.94, arg_pos_y = 0.94, arg_fine_tune_aspect_ratio = ''2/3'',
      arg_stroke_width = 1, arg_stroke_color = [242, 97, 0], arg_quality = 95,
      arg_format = ''`%y %-m %-d'', arg_img_exts = ''jpg,jpeg,png,tiff''\<rparr>"

section \<open>A reference environment\<close>

text \<open>
  One environment in which every call behaves as on a POSIX system with absolute
  paths: images are the files that hold one, saving stores the image, drawing
  records the call. \<open>listing\<close> is what \<open>glob\<close> enumerates. It serves to run the
  program on concrete inputs.
\<close>

definition dirname :: "path \<Rightarrow> path" where
  "dirname p = rev (drop 1 (dropWhile (\<lambda>c. c \<noteq> CHR ''/'') (rev p)))"

definition utc_first_day :: "real \<Rightarrow> exc + datetime" where
  "utc_first_day t =
     (if 0 \<le> t \<and> t < 86400
      then Inr \<lparr>year = 1970, month = 1, day = 1, hour = nat \<lfloor>t\<rfloor> div 3600,
                minute = nat \<lfloor>t\<rfloor> mod 3600 div 60, second = nat \<lfloor>t\<rfloor> mod 60,
                microsecond = 0\<rparr>
      else Inl OSError)"

definition transpose_stored :: "image \<Rightarrow> image" where
  "transpose_stored img =
     (if orientation img \<in> {5, 6, 7, 8}
      then img\<lparr>img_size := (snd (img_size img), fst (img_size img)), orientation := 1\<rparr>
      else img\<lparr>orientation := 1\<rparr>)"

text \<open>
  \<open>strftime\<close> for the directives \<open>%Y\<close>, \<open>%y\<close>, \<open>%m\<close> and \<open>%d\<close>; any other
  directive raises here.
\<close>

definition directive :: "datetime \<Rightarrow> char \<Rightarrow> exc + string" where
  "directive d c =
     (if c = CHR ''Y'' then Inr (zero_pad4 (year d))
      else if c = CHR ''y'' then Inr (zero_pad2 (year d mod 100))
      else if c = CHR ''m'' then Inr (zero_pad2 (month d))
      else if c = CHR ''d'' then Inr (zero_pad2 (day d))
      else Inl ValueError)"

fun expand_directives :: "(char \<Rightarrow> exc + string) \<Rightarrow> string \<Rightarrow> exc + string" where
  "expand_directives f [] = Inr []"
| "expand_directives f [c] = (if c = CHR ''%'' then Inl ValueError else Inr [c])"
| "expand_directives f (c # e # cs) =
     (if c = CHR ''%''
      then bind_exc (f e) (\<lambda>x. bind_exc (expand_directives f cs) (\<lambda>r. Inr (x @ r)))
      else bind_exc (expand_directives f (e # cs)) (\<lambda>r. Inr (c # r)))"

definition ref_env :: "path list \<Rightarrow> env" where
  "ref_env listing =
     \<lparr>Image_open = (\<lambda>w p. case nodes w p of
                        None \<Rightarrow> Inl FileNotFoundError
                      | Some Dir \<Rightarrow> Inl OSError
                      | Some (File t None) \<Rightarrow> Inl UnidentifiedImageError
                      | Some (File t (Some img)) \<Rightarrow> Inr img),
      getexif = (\<lambda>img. Inr (exif_tags img)),
      st_mtime = (\<lambda>w p. case nodes w p of
                        Some (File t c) \<Rightarrow> Inr t
                      | _ \<Rightarrow> Inl FileNotFoundError),
      fromtimestamp = utc_first_day,
      exif_transpose = (\<lambda>img. Inr (transpose_stored img)),
      strftime = (\<lambda>d f. expand_directives (directive d) f),
      truetype = (\<lambda>w p n. if exists w p \<and> 0 < n
                             then Inr \<lparr>font_file = p, font_px = n\<rparr> else Inl OSError),
      draw_text = (\<lambda>img a. Inr (img\<lparr>drawn := drawn img @ [a]\<rparr>)),
      absolute = (\<lambda>p. p),
      parent = dirname,
      mkdir = (\<lambda>w p. (w\<lparr>nodes := (nodes w)(p \<mapsto> Dir)\<rparr>, Inr ())),
      save = (\<lambda>w img p q raw.
                (w\<lparr>nodes := (nodes w)(p \<mapsto> File 0 (Some (img\<lparr>info_exif := raw\<rparr>)))\<rparr>, Inr ())),
      glob = (\<lambda>w d. listing),
      rglob = (\<lambda>w d. listing),
      expanduser = (\<lambda>p. if take 1 p = ''~'' then ''/home/u'' @ drop 1 p else p),
      urlretrieve = (\<lambda>w url p. (w\<lparr>nodes := (nodes w)(p \<mapsto> File 0 None)\<rparr>, Inr ()))\<rparr>"

section \<open>Sample inputs\<close>

text \<open>The configuration \<open>cli\<close> builds from the defaults, with a date format of plain directives.\<close>

definition sample_args :: args where
  "sample_args = (default_args ''/in'' 4)\<lparr>dst := ''/out'', arg_format := ''%Y-%m-%d''\<rparr>"

definition sample_config :: config where
  "sample_config = picdate_config (ref_env []) sample_args"


text \<open>
  A landscape photograph stored on its side (orientation 6), taken on 1 May 2023 at
  10:00:00, and a directory \<open>/in\<close> that holds it next to a file that is no image.
  The font is already in the cache.
\<close>

definition sample_instant :: datetime where
  "sample_instant =
     \<lparr>year = 2023, month = 5, day = 1, hour = 10, minute = 0, second = 0, microsecond = 0\<rparr>"

definition sample_photo :: image where
  "sample_photo =
     \<lparr>img_size = (4000, 3000), exif_tags = Some [36867 \<mapsto> ''2023:05:01 10:00:00''],
      orientation = 6, info_exif = Some ''Exif'', drawn = []\<rparr>"

definition sample_world :: world where
  "sample_world =
     \<lparr>nodes = [''/in'' \<mapsto> Dir,
               ''/in/broken.jpg'' \<mapsto> File 50 None,
               ''/in/a.jpg'' \<mapsto> File 100 (Some sample_photo),
               ''/home/u/.cache/picdate/CursedTimerUlil-Aznm.ttf'' \<mapsto> File 0 None],
      stdout = []\<rparr>"



text \<open>A photograph with metadata that lacks tag 36867 (only tag 271, the maker).\<close>

definition undated_photo :: image where
  "undated_photo = sample_photo\<lparr>exif_tags := Some [271 \<mapsto> ''Maker'']\<rparr>"

definition undated_world :: world where
  "undated_world =
     sample_world\<lparr>nodes := (nodes sample_world)(''/in/a.jpg'' \<mapsto> File 100 (Some undated_photo))\<rparr>"

section \<open>Properties of the geometry\<close>

lemma bind_exc_simps [simp]:
  "bind_exc (Inl e) f = Inl e"
  "bind_exc (Inr x) f = f x"
  by (simp_all add: bind_exc_def)


lemma py_div_eq_Inr: "py_div x y = Inr q \<longleftrightarrow> (y \<noteq> 0 \<and> q = x / y)"
  by (auto simp: py_div_def)

lemma Fraction_float_none: "Fraction_float ''none'' = Inl ValueError"
  by (simp add: Fraction_float_def py_int_def is_digit_def)

text \<open>\<open>fine_tune\<close> with the ratio parsed and the divisions written out.\<close>

lemma fine_tune_parsed:
  assumes "Fraction_float ratio = Inr ar"
  shows "fine_tune ratio width height =
     (if height = 0 then Inl ZeroDivisionError
      else if width > height then
        (if ar = 0 then Inl ZeroDivisionError
         else if real_of_int width / real_of_int height > 1 / ar + 0.01
           then Inr ((real_of_int width - 1 / ar * real_of_int height) / 2, 0)
         else if real_of_int width / real_of_int height < 1 / ar - 0.01
           then Inr (0, (real_of_int height - ar * real_of_int width) / 2)
         else Inr (0, 0))
      else
        (if real_of_int width / real_of_int height > ar + 0.01
           then Inr ((real_of_int width - ar * real_of_int height) / 2, 0)
         else if real_of_int width / real_of_int height < ar - 0.01
           then (if ar = 0 then Inl ZeroDivisionError
                 else Inr (0, (real_of_int height - 1 / ar * real_of_int width) / 2))
         else Inr (0, 0)))"
proof -
  have "ratio \<noteq> ''none''"
    using assms Fraction_float_none by auto
  then show ?thesis
    using assms by (simp add: fine_tune_def py_div_def)
qed

lemma Fraction_two_thirds: "Fraction_float ''2/3'' = Inr (2 / 3)"
  by (simp add: Fraction_float_def py_int_def is_digit_def digit_val_def)



lemma fine_tune_bounds:
  assumes dims: "1 \<le> width" "1 \<le> height"
    and r: "Fraction_float ratio = Inr r" "0 < r"
  shows "\<exists>ow oh. fine_tune ratio width height = Inr (ow, oh)
                \<and> 0 \<le> ow \<and> ow < real_of_int width \<and> 0 \<le> oh \<and> oh < real_of_int height"
proof -
  let ?W = "real_of_int width" and ?H = "real_of_int height"
  have WH: "1 \<le> ?W" "1 \<le> ?H" using dims by simp_all
  have h0: "height \<noteq> 0" and r0: "r \<noteq> 0" using dims r by simp_all
  have gt: "?W / ?H > c \<longleftrightarrow> ?W > c * ?H" and lt: "?W / ?H < c \<longleftrightarrow> ?W < c * ?H" for c
    using WH by (simp_all add: field_simps)
  have ir: "0 < 1 / r" using r by simp
  have rr: "r * (1 / r) = 1" using r by simp
  have z: "(0::real) \<le> 0" by simp
  have hp: "0 < ?H" "0 < ?W" using WH by simp_all
  note ft = fine_tune_parsed [OF r(1), of width height]
  show ?thesis
  proof (cases "width > height")
    case True
    show ?thesis
    proof (cases "?W / ?H > 1 / r + 0.01")
      case c1: True
      have eq: "fine_tune ratio width height = Inr ((?W - 1 / r * ?H) / 2, 0)"
        unfolding ft using True c1 h0 r0 by (simp only: if_True if_False)
      from c1 have "?W > (1 / r + 0.01) * ?H" by (simp only: gt)
      then have "?W - 1 / r * ?H > 0.01 * ?H" by (simp add: algebra_simps)
      moreover have "0 < 1 / r * ?H" using ir WH by simp
      ultimately have "0 \<le> (?W - 1 / r * ?H) / 2 \<and> (?W - 1 / r * ?H) / 2 < ?W"
        using WH by simp
      with eq z hp show ?thesis by blast
    next
      case c1: False
      show ?thesis
      proof (cases "?W / ?H < 1 / r - 0.01")
        case c2: True
        have eq: "fine_tune ratio width height = Inr (0, (?H - r * ?W) / 2)"
          unfolding ft using True c1 c2 h0 r0 by (simp only: if_True if_False)
        from c2 have "?W < (1 / r - 0.01) * ?H" by (simp only: lt)
        then have "r * ?W < r * ((1 / r - 0.01) * ?H)" using r by simp
        also have "\<dots> = ?H - 0.01 * r * ?H" using rr r0 by (simp add: algebra_simps)
        finally have "?H - r * ?W > 0.01 * r * ?H" by simp
        moreover have "0 < r * ?W" "0 < 0.01 * r * ?H" using r WH by simp_all
        ultimately have "0 \<le> (?H - r * ?W) / 2 \<and> (?H - r * ?W) / 2 < ?H" by simp
        with eq z hp show ?thesis by blast
      next
        case c2: False
        have eq: "fine_tune ratio width height = Inr (0, 0)"
          unfolding ft using True c1 c2 h0 r0 by (simp only: if_True if_False)
        with WH show ?thesis by force
      qed
    qed
  next
    case False
    show ?thesis
    proof (cases "?W / ?H > r + 0.01")
      case c1: True
      have eq: "fine_tune ratio width height = Inr ((?W - r * ?H) / 2, 0)"
        unfolding ft using False c1 h0 r0 by (simp only: if_True if_False)
      from c1 have "?W > (r + 0.01) * ?H" by (simp only: gt)
      then have "?W - r * ?H > 0.01 * ?H" by (simp add: algebra_simps)
      moreover have "0 < r * ?H" using r WH by simp
      ultimately have "0 \<le> (?W - r * ?H) / 2 \<and> (?W - r * ?H) / 2 < ?W" using WH by simp
      with eq z hp show ?thesis by blast
    next
      case c1: False
      show ?thesis
      proof (cases "?W / ?H < r - 0.01")
        case c2: True
        have eq: "fine_tune ratio width height = Inr (0, (?H - 1 / r * ?W) / 2)"
          unfolding ft using False c1 c2 h0 r0 by (simp only: if_True if_False)
        from c2 have "?W < (r - 0.01) * ?H" by (simp only: lt)
        then have "1 / r * ?W < 1 / r * ((r - 0.01) * ?H)"
          using ir by (rule mult_strict_left_mono)
        also have "\<dots> = ?H - 0.01 * (1 / r) * ?H" using rr r0 by (simp add: algebra_simps)
        finally have "?H - 1 / r * ?W > 0.01 * (1 / r) * ?H" by simp
        moreover have "0 < 1 / r * ?W" "0 < 0.01 * (1 / r) * ?H" using ir WH by simp_all
        ultimately have "0 \<le> (?H - 1 / r * ?W) / 2 \<and> (?H - 1 / r * ?W) / 2 < ?H" by simp
        with eq z hp show ?thesis by blast
      next
        case c2: False
        have eq: "fine_tune ratio width height = Inr (0, 0)"
          unfolding ft using False c1 c2 h0 r0 by (simp only: if_True if_False)
        with WH show ?thesis by force
      qed
    qed
  qed
qed

text \<open>
  Claim C10. For an image of width and height at least 1, a ratio \<open>r\<close> with
  \<open>0 < r \<le> 1\<close> (or \<open>none\<close>) and \<open>pos_x\<close>, \<open>pos_y\<close> in \<open>[0, 1]\<close>, the
  geometry returns offsets with \<open>0 \<le> offset_w < width\<close> and
  \<open>0 \<le> offset_h < height\<close>, and the point where the text is drawn lies in the
  image rectangle.
\<close>

theorem draw_point_inside_image:
  assumes dims: "1 \<le> width" "1 \<le> height"
    and ratio: "fine_tune_aspect_ratio config = ''none'' \<or>
                (\<exists>r. Fraction_float (fine_tune_aspect_ratio config) = Inr r \<and> 0 < r \<and> r \<le> 1)"
    and pos: "0 \<le> pos_x config" "pos_x config \<le> 1" "0 \<le> pos_y config" "pos_y config \<le> 1"
  shows "\<exists>offset_w offset_h.
           fine_tune (fine_tune_aspect_ratio config) width height = Inr (offset_w, offset_h) \<and>
           0 \<le> offset_w \<and> offset_w < real_of_int width \<and>
           0 \<le> offset_h \<and> offset_h < real_of_int height \<and>
           0 \<le> fst (draw_xy config width height (offset_w, offset_h)) \<and>
           fst (draw_xy config width height (offset_w, offset_h)) \<le> real_of_int width \<and>
           0 \<le> snd (draw_xy config width height (offset_w, offset_h)) \<and>
           snd (draw_xy config width height (offset_w, offset_h)) \<le> real_of_int height"
proof -
  let ?W = "real_of_int width" and ?H = "real_of_int height"
  have "\<exists>ow oh. fine_tune (fine_tune_aspect_ratio config) width height = Inr (ow, oh)
                \<and> 0 \<le> ow \<and> ow < ?W \<and> 0 \<le> oh \<and> oh < ?H"
    using ratio
  proof
    assume "fine_tune_aspect_ratio config = ''none''"
    then show ?thesis using dims by (simp add: fine_tune_def)
  next
    assume "\<exists>r. Fraction_float (fine_tune_aspect_ratio config) = Inr r \<and> 0 < r \<and> r \<le> 1"
    then show ?thesis using fine_tune_bounds [OF dims] by blast
  qed
  then obtain ow oh where o: "fine_tune (fine_tune_aspect_ratio config) width height = Inr (ow, oh)"
    "0 \<le> ow" "ow < ?W" "0 \<le> oh" "oh < ?H" by blast
  have x: "0 \<le> (?W - ow) * pos_x config \<and> (?W - ow) * pos_x config \<le> ?W"
  proof
    show "0 \<le> (?W - ow) * pos_x config" using o pos by simp
    have "(?W - ow) * pos_x config \<le> ?W - ow"
      by (rule mult_left_le) (use o pos in simp_all)
    then show "(?W - ow) * pos_x config \<le> ?W" using o by linarith
  qed
  have y: "0 \<le> (?H - oh) * pos_y config \<and> (?H - oh) * pos_y config \<le> ?H"
  proof
    show "0 \<le> (?H - oh) * pos_y config" using o pos by simp
    have "(?H - oh) * pos_y config \<le> ?H - oh"
      by (rule mult_left_le) (use o pos in simp_all)
    then show "(?H - oh) * pos_y config \<le> ?H" using o by linarith
  qed
  have "0 \<le> fst (draw_xy config width height (ow, oh)) \<and>
        fst (draw_xy config width height (ow, oh)) \<le> ?W \<and>
        0 \<le> snd (draw_xy config width height (ow, oh)) \<and>
        snd (draw_xy config width height (ow, oh)) \<le> ?H"
    using x y by (simp add: draw_xy_def)
  with o show ?thesis by blast
qed

theorem draw_point_inside_image_witness:
  "\<exists>offset_w offset_h.
     fine_tune (fine_tune_aspect_ratio sample_config) 6000 3000 = Inr (offset_w, offset_h) \<and>
     0 \<le> offset_w \<and> offset_w < 6000 \<and> 0 \<le> offset_h \<and> offset_h < 3000 \<and>
     0 \<le> fst (draw_xy sample_config 6000 3000 (offset_w, offset_h)) \<and>
     fst (draw_xy sample_config 6000 3000 (offset_w, offset_h)) \<le> 6000 \<and>
     0 \<le> snd (draw_xy sample_config 6000 3000 (offset_w, offset_h)) \<and>
     snd (draw_xy sample_config 6000 3000 (offset_w, offset_h)) \<le> 3000"
proof -
  have cfg: "fine_tune_aspect_ratio sample_config = ''2/3''"
    "pos_x sample_config = 0.94" "pos_y sample_config = 0.94"
    by (simp_all add: sample_config_def sample_args_def picdate_config_def default_args_def)
  have "\<exists>r. Fraction_float (fine_tune_aspect_ratio sample_config) = Inr r \<and> 0 < r \<and> r \<le> 1"
    unfolding cfg by (rule exI [of _ "2 / 3"]) (simp add: Fraction_two_thirds)
  then have "fine_tune_aspect_ratio sample_config = ''none'' \<or>
        (\<exists>r. Fraction_float (fine_tune_aspect_ratio sample_config) = Inr r \<and> 0 < r \<and> r \<le> 1)"
    by (rule disjI2)
  from draw_point_inside_image [of 6000 3000 sample_config, OF _ _ this]
  show ?thesis by (simp add: cfg)
qed

section \<open>Properties of the font size\<close>




section \<open>Properties of the scheduler\<close>

text \<open>
  Claim C6. The destination of a candidate should be its path with the leading
  source root replaced by the destination root and the rest unchanged. The code
  calls \<open>str.replace\<close>, which replaces every occurrence of the source root: for the
  source root \<open>/pics\<close>, the destination root \<open>/out\<close> and the candidate
  \<open>/pics/pics.jpg\<close> the destination is \<open>/out/out.jpg\<close>, not \<open>/out/pics.jpg\<close>.
\<close>

theorem out_path_replaces_every_occurrence:
  "out_path_of (ref_env []) ''/pics'' ''/out'' ''/pics/pics.jpg'' = ''/out/out.jpg''"
  by (simp add: out_path_of_def str_replace_def ref_env_def replace_count.simps)

lemma allowed_exts_sample:
  "allowed_exts sample_config = [''.jpg'', ''.jpeg'', ''.png'', ''.tiff'']"
proof -
  have "img_exts sample_config = ''jpg,jpeg,png,tiff''"
    by (simp add: sample_config_def sample_args_def picdate_config_def default_args_def)
  then show ?thesis
    by (simp add: allowed_exts_def lower_def lower_char_def)
qed

lemma suffix_jpg:
  "lower (suffix ''/a/a.jpg'') = ''.jpg''" "lower (suffix ''/a/b.jpg'') = ''.jpg''"
  by (simp_all add: suffix_def path_name_def lower_def lower_char_def)

text \<open>
  Claim C9. The submitted tasks should have pairwise distinct output paths. With
  the source root \<open>/a\<close>, the destination root \<open>/b\<close>, overwriting enabled and the
  candidates \<open>/a/a.jpg\<close> and \<open>/a/b.jpg\<close>, the loop submits two tasks that both
  write \<open>/b/b.jpg\<close>: the replacement of every occurrence of \<open>/a\<close> maps both
  candidates to one destination.
\<close>

theorem submitted_outputs_collide:
  "snd (submit_tasks (ref_env []) sample_world ''/a'' ''/b'' True sample_config
          [''/a/a.jpg'', ''/a/b.jpg'']) =
   [(''/a/a.jpg'', ''/b/b.jpg''), (''/a/b.jpg'', ''/b/b.jpg'')]"
proof -
  have o: "out_path_of (ref_env []) ''/a'' ''/b'' ''/a/a.jpg'' = ''/b/b.jpg''"
    "out_path_of (ref_env []) ''/a'' ''/b'' ''/a/b.jpg'' = ''/b/b.jpg''"
    by (simp_all add: out_path_of_def str_replace_def ref_env_def replace_count.simps)
  have a: "absolute (ref_env []) p = p" for p
    by (simp add: ref_env_def)
  show ?thesis
    by (simp add: submit_tasks_def submit_one_def allowed_exts_sample suffix_jpg o a)
qed

text \<open>
  The other half of the invariant holds: no submitted task has its input as its
  output.
\<close>

lemma submit_one_in_differs_out:
  assumes "\<forall>t \<in> set (snd st). fst t \<noteq> snd t"
  shows "\<forall>t \<in> set (snd (submit_one E in_dir out_dir overwrite config st file)). fst t \<noteq> snd t"
  using assms by (auto simp: submit_one_def Let_def)

lemma foldl_submit_in_differs_out:
  "\<forall>t \<in> set (snd st). fst t \<noteq> snd t \<Longrightarrow>
   \<forall>t \<in> set (snd (foldl (submit_one E in_dir out_dir overwrite config) st files)). fst t \<noteq> snd t"
proof (induction files arbitrary: st)
  case Nil
  then show ?case by simp
next
  case (Cons f fs)
  show ?case
    unfolding foldl_Cons
    by (rule Cons.IH) (rule submit_one_in_differs_out [OF Cons.prems])
qed

lemma submitted_in_differs_out:
  "(i, out) \<in> set (snd (submit_tasks E w in_dir out_dir overwrite config files)) \<Longrightarrow> i \<noteq> out"
  using foldl_submit_in_differs_out [of "(w, [])" E in_dir out_dir overwrite config files]
  by (auto simp: submit_tasks_def)

section \<open>Properties of date resolution\<close>

subsection \<open>Replacing the first two colons\<close>

lemma replace_count_0: "replace_count old new 0 s = s"
  by (cases "old = []") (simp_all add: replace_count.simps)

lemma replace_colon_hit:
  "replace_count '':'' new (Suc n) (CHR '':'' # cs) = new @ replace_count '':'' new n cs"
  by (subst replace_count.simps) simp

lemma replace_colon_miss:
  "c \<noteq> CHR '':'' \<Longrightarrow>
   replace_count '':'' new (Suc n) (c # cs) = c # replace_count '':'' new (Suc n) cs"
  by (subst replace_count.simps) simp

lemma replace_count_Nil: "old \<noteq> [] \<Longrightarrow> replace_count old new n [] = []"
  by (subst replace_count.simps) simp

subsection \<open>Decimal fields\<close>

lemma is_digit_neq:
  "is_digit c \<Longrightarrow> c \<noteq> CHR '':'' \<and> c \<noteq> CHR ''-'' \<and> c \<noteq> CHR ''+'' \<and> c \<noteq> CHR ''.'' \<and>
     CHR '':'' \<noteq> c \<and> CHR ''-'' \<noteq> c \<and> CHR ''+'' \<noteq> c \<and> CHR ''.'' \<noteq> c"
  by (auto simp: is_digit_def)

lemma digit_char_digit: "k < 10 \<Longrightarrow> is_digit (digit_char k)"
  by (simp add: is_digit_def digit_char_def)

lemma digit_val_digit_char: "k < 10 \<Longrightarrow> digit_val (digit_char k) = k"
  by (simp add: digit_val_def digit_char_def)

lemma py_int_2: "is_digit a \<Longrightarrow> is_digit b \<Longrightarrow> py_int [a, b] = Inr (10 * digit_val a + digit_val b)"
  by (simp add: py_int_def)

lemma py_int_4:
  "is_digit a \<Longrightarrow> is_digit b \<Longrightarrow> is_digit c \<Longrightarrow> is_digit e \<Longrightarrow>
   py_int [a, b, c, e] = Inr (10 * (10 * (10 * digit_val a + digit_val b) + digit_val c) + digit_val e)"
  by (simp add: py_int_def)

lemma py_int_000: "py_int ''000'' = Inr 0"
  by (simp add: py_int_def is_digit_def digit_val_def)

lemma pad2_val: "n < 100 \<Longrightarrow> 10 * (n div 10 mod 10) + n mod 10 = (n::nat)"
proof -
  assume "n < 100"
  then have "n div 10 < 10" by simp
  then have "n div 10 mod 10 = n div 10" by simp
  then show ?thesis by simp
qed

lemma pad4_val:
  assumes "n < 10000"
  shows "1000 * (n div 1000 mod 10) + 100 * (n div 100 mod 10) + 10 * (n div 10 mod 10) + n mod 10
         = (n::nat)"
proof -
  have a: "n = 10 * (n div 10) + n mod 10" by simp
  have b: "n div 10 = 10 * (n div 100) + n div 10 mod 10"
    using div_mult_mod_eq [of "n div 10" 10] by (simp add: div_mult2_eq [symmetric])
  have c: "n div 100 = 10 * (n div 1000) + n div 100 mod 10"
    using div_mult_mod_eq [of "n div 100" 10] by (simp add: div_mult2_eq [symmetric])
  have "n div 1000 < 10" using assms by simp
  then have d: "n div 1000 mod 10 = n div 1000" by simp
  from a b c d show ?thesis by linarith
qed

subsection \<open>The layout parses to its instant\<close>

lemma exif_date_digits:
  assumes "is_digit a1" "is_digit a2" "is_digit a3" "is_digit a4"
    "is_digit b1" "is_digit b2" "is_digit c1" "is_digit c2"
    "is_digit e1" "is_digit e2" "is_digit f1" "is_digit f2" "is_digit g1" "is_digit g2"
  shows "exif_date [a1, a2, a3, a4, CHR '':'', b1, b2, CHR '':'', c1, c2, CHR '' '',
                    e1, e2, CHR '':'', f1, f2, CHR '':'', g1, g2] =
         datetime_new (10 * (10 * (10 * digit_val a1 + digit_val a2) + digit_val a3) + digit_val a4)
           (10 * digit_val b1 + digit_val b2) (10 * digit_val c1 + digit_val c2)
           (10 * digit_val e1 + digit_val e2) (10 * digit_val f1 + digit_val f2)
           (10 * digit_val g1 + digit_val g2) 0"
proof -
  note ne = assms [THEN is_digit_neq]
  have rep: "replace_count '':'' ''-'' 2 [a1, a2, a3, a4, CHR '':'', b1, b2, CHR '':'', c1, c2, CHR '' '',
                    e1, e2, CHR '':'', f1, f2, CHR '':'', g1, g2] =
        [a1, a2, a3, a4, CHR ''-'', b1, b2, CHR ''-'', c1, c2, CHR '' '',
                    e1, e2, CHR '':'', f1, f2, CHR '':'', g1, g2]"
    using ne by (simp add: numeral_2_eq_2 replace_colon_hit replace_colon_miss replace_count_0)
  have d: "parse_isoformat_date [a1, a2, a3, a4, CHR ''-'', b1, b2, CHR ''-'', c1, c2] =
     Inr (10 * (10 * (10 * digit_val a1 + digit_val a2) + digit_val a3) + digit_val a4,
          10 * digit_val b1 + digit_val b2, 10 * digit_val c1 + digit_val c2)"
    using assms by (simp add: parse_isoformat_date_def py_int_2 py_int_4 bind_exc_def)
  have t: "parse_isoformat_time [e1, e2, CHR '':'', f1, f2, CHR '':'', g1, g2, CHR ''.'', CHR ''0'', CHR ''0'', CHR ''0''] =
     Inr (10 * digit_val e1 + digit_val e2, 10 * digit_val f1 + digit_val f2,
          10 * digit_val g1 + digit_val g2, 0)"
    using assms ne by (simp add: parse_isoformat_time_def parse_hh_mm_ss_ff_def py_int_2 py_int_000 bind_exc_def)
  show ?thesis
    unfolding exif_date_def rep
    by (simp add: fromisoformat_def d t bind_exc_def)
qed

lemma exif_date_layout:
  assumes "valid_datetime d" "microsecond d = 0"
  shows "exif_date (exif_layout d) = Inr d"
proof -
  have lt: "year d < 10000" "month d < 100" "day d < 100" "hour d < 100" "minute d < 100"
    "second d < 100"
    using assms(1) by (auto simp: valid_datetime_def days_in_month_def split: if_splits)
  have dg: "is_digit (digit_char (k mod 10))" for k
    by (rule digit_char_digit) simp
  have dv: "digit_val (digit_char (k mod 10)) = k mod 10" for k
    by (rule digit_val_digit_char) simp
  have "exif_date (exif_layout d) =
        datetime_new (year d) (month d) (day d) (hour d) (minute d) (second d) 0"
    unfolding exif_layout_def zero_pad2_def zero_pad4_def
    by (simp add: exif_date_digits dg dv pad2_val pad4_val lt)
  also have "\<dots> = Inr d"
    using assms by (cases d) (simp add: datetime_new_def valid_datetime_def)
  finally show ?thesis .
qed

lemma bind_io_simps [simp]:
  "bind_io (w, Inl e) f = (w, Inl e)"
  "bind_io (w, Inr x) f = f w x"
  by (simp_all add: bind_io_def)

text \<open>
  Claim C1. When tag 36867 holds the text \<open>YYYY:MM:DD hh:mm:ss\<close> of a valid
  instant, date resolution returns exactly that instant and prints nothing, in
  pad.py and in picdate.py (there together with the transposed image). When the
  metadata is absent or lacks the tag, it prints the fallback line and returns
  \<open>fromtimestamp\<close> of the file's modification time.
\<close>

theorem date_resolution:
  "(valid_datetime d \<and> microsecond d = 0 \<and> exif = Some tags \<and>
      tags 36867 = Some (exif_layout d) \<longrightarrow>
        pad_get_date E w inpath exif = (w, Inr d) \<and>
        (\<forall>img1. exif_transpose E img = Inr img1 \<longrightarrow>
           picdate_get_date E w inpath img exif = (w, Inr (d, img1)))) \<and>
   ((exif = None \<or> (\<exists>tags. exif = Some tags \<and> tags 36867 = None)) \<and>
      w1 = py_print (Line (quoted inpath @ '' does not have exif info, use modified date instead'')) w \<and>
      st_mtime E w1 inpath = Inr t \<and> fromtimestamp E t = Inr d1 \<longrightarrow>
        pad_get_date E w inpath exif = (w1, Inr d1) \<and>
        picdate_get_date E w inpath img exif = (w1, Inr (d1, img)))"
proof (intro conjI impI)
  assume a: "valid_datetime d \<and> microsecond d = 0 \<and> exif = Some tags \<and>
      tags 36867 = Some (exif_layout d)"
  then have p: "exif_date (exif_layout d) = Inr d"
    by (simp add: exif_date_layout)
  from a p show "pad_get_date E w inpath exif = (w, Inr d)"
    by (simp add: pad_get_date_def)
  from a p show "\<forall>img1. exif_transpose E img = Inr img1 \<longrightarrow>
           picdate_get_date E w inpath img exif = (w, Inr (d, img1))"
    by (simp add: picdate_get_date_def)
next
  assume b: "(exif = None \<or> (\<exists>tags. exif = Some tags \<and> tags 36867 = None)) \<and>
      w1 = py_print (Line (quoted inpath @ '' does not have exif info, use modified date instead'')) w \<and>
      st_mtime E w1 inpath = Inr t \<and> fromtimestamp E t = Inr d1"
  then have m: "mtime_date E w inpath = (w1, Inr d1)"
    by (auto simp: mtime_date_def Let_def)
  from b m show "pad_get_date E w inpath exif = (w1, Inr d1)"
    by (auto simp: pad_get_date_def)
  from b m show "picdate_get_date E w inpath img exif = (w1, Inr (d1, img))"
    by (auto simp: picdate_get_date_def)
qed

lemma exif_layout_sample: "exif_layout sample_instant = ''2023:05:01 10:00:00''"
  by code_simp

theorem date_resolution_witness:
  "pad_get_date (ref_env []) sample_world ''/in/a.jpg'' (exif_tags sample_photo)
     = (sample_world, Inr sample_instant) \<and>
   picdate_get_date (ref_env []) sample_world ''/in/a.jpg'' sample_photo (exif_tags sample_photo)
     = (sample_world, Inr (sample_instant, transpose_stored sample_photo)) \<and>
   pad_get_date (ref_env []) sample_world ''/in/a.jpg'' None
     = (py_print (Line (quoted ''/in/a.jpg'' @ '' does not have exif info, use modified date instead''))
          sample_world,
        Inr \<lparr>year = 1970, month = 1, day = 1, hour = 0, minute = 1, second = 40, microsecond = 0\<rparr>)"
proof -
  let ?w1 = "py_print (Line (quoted ''/in/a.jpg'' @ '' does not have exif info, use modified date instead''))
          sample_world"
  let ?d1 = "\<lparr>year = 1970, month = 1, day = 1, hour = 0, minute = 1, second = 40, microsecond = 0\<rparr>"
  have v: "valid_datetime sample_instant \<and> microsecond sample_instant = 0"
    by (simp add: valid_datetime_def sample_instant_def days_in_month_def)
  have e: "exif_tags sample_photo = Some [36867 \<mapsto> ''2023:05:01 10:00:00'']"
    by (simp add: sample_photo_def)
  have tr: "exif_transpose (ref_env []) sample_photo = Inr (transpose_stored sample_photo)"
    by (simp add: ref_env_def)
  have mt: "st_mtime (ref_env []) ?w1 ''/in/a.jpg'' = Inr 100"
    by (simp add: ref_env_def py_print_def sample_world_def)
  have ft: "fromtimestamp (ref_env []) 100 = Inr ?d1"
    by (simp add: ref_env_def utc_first_day_def)
  note thm1 = date_resolution [of sample_instant "exif_tags sample_photo"
      "[36867 \<mapsto> ''2023:05:01 10:00:00'']" "ref_env []" sample_world "''/in/a.jpg''" sample_photo]
  note thm2 = date_resolution [of _ None _ "ref_env []" sample_world "''/in/a.jpg''" _ ?w1 100 ?d1]
  from thm1 v e tr have
    "pad_get_date (ref_env []) sample_world ''/in/a.jpg'' (exif_tags sample_photo)
       = (sample_world, Inr sample_instant) \<and>
     picdate_get_date (ref_env []) sample_world ''/in/a.jpg'' sample_photo (exif_tags sample_photo)
       = (sample_world, Inr (sample_instant, transpose_stored sample_photo))"
    by (simp add: exif_layout_sample)
  moreover from thm2 mt ft have
    "pad_get_date (ref_env []) sample_world ''/in/a.jpg'' None = (?w1, Inr ?d1)"
    by simp
  ultimately show ?thesis by simp
qed

section \<open>Properties of the worker\<close>




lemma except_Exception_returns: "snd (except_Exception r) = Inr ()"
  by (cases r) (auto simp: except_Exception_def split: sum.splits)





section \<open>Runs in the reference environment\<close>

lemma exif_date_sample: "exif_date ''2023:05:01 10:00:00'' = Inr sample_instant"
  by (simp add: exif_date_def numeral_2_eq_2 replace_count.simps fromisoformat_def
        parse_isoformat_date_def parse_isoformat_time_def parse_hh_mm_ss_ff_def py_int_def is_digit_def digit_val_def
        datetime_new_def valid_datetime_def days_in_month_def sample_instant_def)

lemma sample_config_fields:
  "format sample_config = ''%Y-%m-%d''"
  "fine_tune_aspect_ratio sample_config = ''2/3''"
  "pos_x sample_config = 0.94" "pos_y sample_config = 0.94"
  "pos_w sample_config = 0.94" "pos_h sample_config = 0.94"
  "text_size sample_config = 4.24"
  "font_path sample_config = ''/home/u/.cache/picdate/CursedTimerUlil-Aznm.ttf''"
  "quality sample_config = 95"
  "img_exts sample_config = ''jpg,jpeg,png,tiff''"
  by (simp_all add: sample_config_def sample_args_def picdate_config_def default_args_def ref_env_def)

lemma open_sample: "Image_open (ref_env l) sample_world ''/in/a.jpg'' = Inr sample_photo"
  by (simp add: ref_env_def sample_world_def)

lemma font_cached: "exists sample_world ''/home/u/.cache/picdate/CursedTimerUlil-Aznm.ttf''"
  by (simp add: exists_def sample_world_def)


lemma ref_env_calls:
  "getexif (ref_env l) img = Inr (exif_tags img)"
  "exif_transpose (ref_env l) img = Inr (transpose_stored img)"
  "truetype (ref_env l) w p n =
     (if exists w p \<and> 0 < n then Inr \<lparr>font_file = p, font_px = n\<rparr> else Inl OSError)"
  "draw_text (ref_env l) img a = Inr (img\<lparr>drawn := drawn img @ [a]\<rparr>)"
  "absolute (ref_env l) p = p"
  "parent (ref_env l) = dirname"
  "mkdir (ref_env l) w p = (w\<lparr>nodes := (nodes w)(p \<mapsto> Dir)\<rparr>, Inr ())"
  "save (ref_env l) w img p q raw =
     (w\<lparr>nodes := (nodes w)(p \<mapsto> File 0 (Some (img\<lparr>info_exif := raw\<rparr>)))\<rparr>, Inr ())"
  "glob (ref_env l) w p = l"
  "rglob (ref_env l) w p = l"
  "expanduser (ref_env l) p = (if take 1 p = ''~'' then ''/home/u'' @ drop 1 p else p)"
  by (simp_all add: ref_env_def)

lemma strftime_sample:
  "strftime (ref_env l) sample_instant ''%Y-%m-%d'' = Inr ''2023-05-01''"
proof -
  have "expand_directives (directive sample_instant) ''%Y-%m-%d'' = Inr ''2023-05-01''"
    by code_simp
  then show ?thesis by (simp add: ref_env_def)
qed

lemma sample_photo_fields:
  "img_size sample_photo = (4000, 3000)" "info_exif sample_photo = Some ''Exif''"
  "exif_tags sample_photo = Some [36867 \<mapsto> ''2023:05:01 10:00:00'']"
  "drawn sample_photo = []" "orientation sample_photo = 6"
  by (simp_all add: sample_photo_def)

lemma pad_run:
  "pad_add_date_to_img (ref_env l) sample_world ''/in/a.jpg'' ''/out/a.jpg'' sample_config =
   (sample_world\<lparr>nodes := (nodes sample_world)
       (''/out'' \<mapsto> Dir,
        ''/out/a.jpg'' \<mapsto> File 0 (Some (sample_photo\<lparr>drawn :=
           [\<lparr>xy = (3760, 2820), label = ''2023-05-01'',
             anchor = ''rb'',
             fnt = \<lparr>font_file = ''/home/u/.cache/picdate/CursedTimerUlil-Aznm.ttf'', font_px = 111\<rparr>,
             fill = [255, 149, 21], d_stroke_width = 1, stroke_fill = [242, 97, 0]\<rparr>]\<rparr>)))\<rparr>,
    Inr ())"
proof -
  have cfg: "text_anchor sample_config = ''rb''" "text_color sample_config = [255, 149, 21]"
    "stroke_width sample_config = 1" "stroke_color sample_config = [242, 97, 0]"
    by (simp_all add: sample_config_def sample_args_def picdate_config_def default_args_def)
  have date: "pad_get_date (ref_env l) sample_world ''/in/a.jpg''
                (Some [36867 \<mapsto> ''2023:05:01 10:00:00'']) = (sample_world, Inr sample_instant)"
    by (simp add: pad_get_date_def exif_date_sample)
  note fmt = strftime_sample
  have size: "img_size sample_photo = (4000, 3000)" "info_exif sample_photo = Some ''Exif''"
    "exif_tags sample_photo = Some [36867 \<mapsto> ''2023:05:01 10:00:00'']"
    "drawn sample_photo = []"
    by (simp_all add: sample_photo_def)
  have ex: "getexif (ref_env l) sample_photo = Inr (exif_tags sample_photo)"
    by (simp add: ref_env_def)
  have tt: "truetype (ref_env l) sample_world ''/home/u/.cache/picdate/CursedTimerUlil-Aznm.ttf'' 111
            = Inr \<lparr>font_file = ''/home/u/.cache/picdate/CursedTimerUlil-Aznm.ttf'', font_px = 111\<rparr>"
    using font_cached by (simp add: ref_env_def)
  have dt: "draw_text (ref_env l) img a = Inr (img\<lparr>drawn := drawn img @ [a]\<rparr>)" for img a
    by (simp add: ref_env_def)
  have par: "parent (ref_env l) (absolute (ref_env l) ''/out/a.jpg'') = ''/out''"
    by (simp add: ref_env_def dirname_def)
  have nex: "\<not> exists sample_world ''/out''"
    by (simp add: exists_def sample_world_def)
  have mk: "mkdir (ref_env l) w p = (w\<lparr>nodes := (nodes w)(p \<mapsto> Dir)\<rparr>, Inr ())" for w p
    by (simp add: ref_env_def)
  have sv: "save (ref_env l) w img p q raw =
            (w\<lparr>nodes := (nodes w)(p \<mapsto> File 0 (Some (img\<lparr>info_exif := raw\<rparr>)))\<rparr>, Inr ())" for w img p q raw
    by (simp add: ref_env_def)
  have fs: "pad_font_size 4000 3000 = 111" by (simp add: pad_font_size_def)
  show ?thesis
    unfolding pad_add_date_to_img_def pad_pipeline_def
    apply (simp add: open_sample ex date Let_def pad_render_def sample_config_fields cfg fmt size fs tt dt
          save_img_def par nex mk sv except_Exception_def)
    apply (simp add: sample_photo_def)
    done
qed











section \<open>Orientation\<close>

text \<open>
  Claim C4, as the code has it. pad.py never applies the stored orientation: it
  measures the image as opened. picdate.py applies \<open>exif_transpose\<close> before
  measuring only in the branch that reads tag 36867; with no metadata, or
  metadata without that tag, it measures the image as opened.
\<close>

theorem orientation_applied_only_with_capture_time:
  assumes "Image_open E w inpath = Inr img" and "getexif E img = Inr exif"
  shows
   "(\<forall>w1 d. pad_get_date E w inpath exif = (w1, Inr d) \<longrightarrow>
       pad_pipeline E w inpath outpath config
         = pad_render E w1 outpath config exif d (img_size img) img) \<and>
    (\<forall>tags date d img1.
       exif = Some tags \<and> tags 36867 = Some date \<and> exif_date date = Inr d \<and>
       exif_transpose E img = Inr img1 \<longrightarrow>
       picdate_pipeline E w inpath outpath config
         = picdate_render E w inpath outpath config exif d img1) \<and>
    ((exif = None \<or> (\<exists>tags. exif = Some tags \<and> tags 36867 = None)) \<longrightarrow>
       (\<forall>w1 d. mtime_date E w inpath = (w1, Inr d) \<longrightarrow>
          picdate_pipeline E w inpath outpath config
            = picdate_render E w1 inpath outpath config exif d img))"
proof (intro conjI allI impI)
  fix w1 d
  assume "pad_get_date E w inpath exif = (w1, Inr d)"
  with assms show "pad_pipeline E w inpath outpath config
         = pad_render E w1 outpath config exif d (img_size img) img"
    by (simp add: pad_pipeline_def Let_def)
next
  fix tags date d img1
  assume "exif = Some tags \<and> tags 36867 = Some date \<and> exif_date date = Inr d \<and>
       exif_transpose E img = Inr img1"
  with assms show "picdate_pipeline E w inpath outpath config
         = picdate_render E w inpath outpath config exif d img1"
    by (simp add: picdate_pipeline_def picdate_get_date_def)
next
  fix w1 d
  assume "exif = None \<or> (\<exists>tags. exif = Some tags \<and> tags 36867 = None)"
    and "mtime_date E w inpath = (w1, Inr d)"
  with assms show "picdate_pipeline E w inpath outpath config
            = picdate_render E w1 inpath outpath config exif d img"
    by (auto simp: picdate_pipeline_def picdate_get_date_def)
qed

theorem orientation_applied_only_with_capture_time_witness:
  "pad_pipeline (ref_env []) sample_world ''/in/a.jpg'' ''/out/a.jpg'' sample_config
     = pad_render (ref_env []) sample_world ''/out/a.jpg'' sample_config (exif_tags sample_photo)
         sample_instant (4000, 3000) sample_photo \<and>
   picdate_pipeline (ref_env []) sample_world ''/in/a.jpg'' ''/out/a.jpg'' sample_config
     = picdate_render (ref_env []) sample_world ''/in/a.jpg'' ''/out/a.jpg'' sample_config
         (exif_tags sample_photo) sample_instant (transpose_stored sample_photo) \<and>
   img_size (transpose_stored sample_photo) = (3000, 4000) \<and>
   picdate_pipeline (ref_env []) undated_world ''/in/a.jpg'' ''/out/a.jpg'' sample_config
     = picdate_render (ref_env [])
         (py_print (Line (quoted ''/in/a.jpg'' @ '' does not have exif info, use modified date instead''))
            undated_world)
         ''/in/a.jpg'' ''/out/a.jpg'' sample_config (exif_tags undated_photo)
         \<lparr>year = 1970, month = 1, day = 1, hour = 0, minute = 1, second = 40, microsecond = 0\<rparr>
         undated_photo \<and>
   img_size undated_photo = (4000, 3000)"
proof -
  let ?w1 = "py_print (Line (quoted ''/in/a.jpg'' @ '' does not have exif info, use modified date instead''))
            undated_world"
  let ?d1 = "\<lparr>year = 1970, month = 1, day = 1, hour = 0, minute = 1, second = 40, microsecond = 0\<rparr>"
  have o: "Image_open (ref_env []) undated_world ''/in/a.jpg'' = Inr undated_photo"
    by (simp add: ref_env_def undated_world_def)
  have gu: "getexif (ref_env []) undated_photo = Inr (exif_tags undated_photo)"
    by (simp add: ref_env_calls)
  have u: "exif_tags undated_photo = None \<or>
           (\<exists>tags. exif_tags undated_photo = Some tags \<and> tags 36867 = None)"
    by (simp add: undated_photo_def)
  have "st_mtime (ref_env []) ?w1 ''/in/a.jpg'' = Inr 100"
    by (simp add: ref_env_def py_print_def undated_world_def)
  moreover have "fromtimestamp (ref_env []) 100 = Inr ?d1"
    by (simp add: ref_env_def utc_first_day_def)
  ultimately have m: "mtime_date (ref_env []) undated_world ''/in/a.jpg'' = (?w1, Inr ?d1)"
    by (simp add: mtime_date_def Let_def)
  from orientation_applied_only_with_capture_time [OF o gu, of "''/out/a.jpg''" sample_config] u m
  have third: "picdate_pipeline (ref_env []) undated_world ''/in/a.jpg'' ''/out/a.jpg'' sample_config
     = picdate_render (ref_env []) ?w1 ''/in/a.jpg'' ''/out/a.jpg'' sample_config
         (exif_tags undated_photo) ?d1 undated_photo"
    by blast
  have g: "getexif (ref_env []) sample_photo = Inr (exif_tags sample_photo)"
    by (simp add: ref_env_calls)
  have d: "pad_get_date (ref_env []) sample_world ''/in/a.jpg'' (exif_tags sample_photo)
           = (sample_world, Inr sample_instant)"
    by (simp add: pad_get_date_def sample_photo_fields exif_date_sample)
  have t: "exif_tags sample_photo = Some [36867 \<mapsto> ''2023:05:01 10:00:00''] \<and>
           [36867 \<mapsto> ''2023:05:01 10:00:00''] (36867::nat) = Some ''2023:05:01 10:00:00'' \<and>
           exif_date ''2023:05:01 10:00:00'' = Inr sample_instant \<and>
           exif_transpose (ref_env []) sample_photo = Inr (transpose_stored sample_photo)"
    by (simp add: sample_photo_fields exif_date_sample ref_env_calls)
  note inst = orientation_applied_only_with_capture_time [OF open_sample g,
      of "''/out/a.jpg''" sample_config]
  from inst d have "pad_pipeline (ref_env []) sample_world ''/in/a.jpg'' ''/out/a.jpg'' sample_config
     = pad_render (ref_env []) sample_world ''/out/a.jpg'' sample_config (exif_tags sample_photo)
         sample_instant (img_size sample_photo) sample_photo"
    by blast
  moreover from inst t have
    "picdate_pipeline (ref_env []) sample_world ''/in/a.jpg'' ''/out/a.jpg'' sample_config
     = picdate_render (ref_env []) sample_world ''/in/a.jpg'' ''/out/a.jpg'' sample_config
         (exif_tags sample_photo) sample_instant (transpose_stored sample_photo)"
    by blast
  ultimately show ?thesis
    using third by (simp add: sample_photo_fields transpose_stored_def undated_photo_def)
qed

text \<open>
  The claim as stated fails in pad.py: the sample photograph has metadata and is
  stored on its side, its corrected size is 3000 by 4000, and the text is placed
  at 0.94 of the stored 4000 by 3000.
\<close>

theorem orientation_not_applied:
  "exif_tags sample_photo \<noteq> None \<and>
   img_size (transpose_stored sample_photo) = (3000, 4000) \<and>
   map_option (\<lambda>img. (img_size img, map xy (drawn img)))
     (stored_image (fst (pad_add_date_to_img (ref_env []) sample_world ''/in/a.jpg'' ''/out/a.jpg''
        sample_config)) ''/out/a.jpg'')
     = Some ((4000, 3000), [(3760, 2820)])"
  by (simp add: pad_run stored_image_def sample_photo_def transpose_stored_def)

section \<open>The aspect ratio on the command line\<close>


lemma pad_worker_returns: "snd (pad_add_date_to_img E w i out config) = Inr ()"
  by (simp add: pad_add_date_to_img_def except_Exception_returns)






end
